theory Spec2Isabelle
  imports Main
begin

section \<open>The training servicer of caikit: global\_train\_servicer.py\<close>

text \<open>
  A shallow embedding of \<^verbatim>\<open>caikit/runtime/servicers/global_train_servicer.py\<close>:
  the servicer \<^verbatim>\<open>GlobalTrainServicer\<close> (\<^verbatim>\<open>Train\<close>, \<^verbatim>\<open>run_training_job\<close>,
  \<^verbatim>\<open>run_async\<close>, \<^verbatim>\<open>_get_model_path\<close>, \<^verbatim>\<open>_load_trained_model\<close>) and the two executors
  \<^verbatim>\<open>LocalTrainSaveExecutor\<close> and \<^verbatim>\<open>SubProcessTrainSaveExecutor\<close>.

  Exceptions are values of a sum type (\<open>Inl\<close> is a raise), objects that the code mutates
  are records passed in and returned, and the collaborators that live outside the file
  (module import, the request mapper, the worker thread, the model manager, the
  operating system's report on the child process) are fields of an environment record.
\<close>

subsection \<open>Exceptions\<close>

text \<open>The members of \<^verbatim>\<open>grpc.StatusCode\<close>.\<close>

datatype StatusCode =
    OK | CANCELLED | UNKNOWN | INVALID_ARGUMENT | DEADLINE_EXCEEDED | NOT_FOUND
  | ALREADY_EXISTS | PERMISSION_DENIED | RESOURCE_EXHAUSTED | FAILED_PRECONDITION
  | ABORTED | OUT_OF_RANGE | UNIMPLEMENTED | INTERNAL | UNAVAILABLE | DATA_LOSS
  | UNAUTHENTICATED

text \<open>
  The exception classes the handlers of the file tell apart, below \<^verbatim>\<open>Exception\<close>.
  \<open>TypeError\<close> and \<open>ValueError\<close> stand for the classes and their subclasses (what
  \<^verbatim>\<open>except (TypeError, ValueError)\<close> catches), \<open>CancelledError\<close> for
  \<^verbatim>\<open>concurrent.futures.CancelledError\<close>, \<open>OtherException\<close> for every other subclass of
  \<^verbatim>\<open>Exception\<close>. \<open>AttributeError\<close>, \<open>IndexError\<close> and \<open>AssertionError\<close> are kept
  apart because the code and the process interface it calls can raise them.
\<close>

datatype py_class =
    TypeError | ValueError | CancelledError | AttributeError | IndexError | AssertionError
  | OtherException

text \<open>
  An exception is either the runtime's own \<^verbatim>\<open>CaikitRuntimeException(status_code, message)\<close>
  or a foreign exception of some class with \<^verbatim>\<open>str(e)\<close> as its text.
\<close>

datatype exn =
    CaikitRuntimeException StatusCode string
  | PyException py_class string

fun status_code :: "exn \<Rightarrow> StatusCode option" where
  "status_code (CaikitRuntimeException c m) = Some c"
| "status_code (PyException k m) = None"

fun message :: "exn \<Rightarrow> string" where
  "message (CaikitRuntimeException c m) = m"
| "message (PyException k m) = m"

fun is_caikit :: "exn \<Rightarrow> bool" where
  "is_caikit (CaikitRuntimeException c m) = True"
| "is_caikit (PyException k m) = False"

definition OOM_EXIT_CODE :: int where
  "OOM_EXIT_CODE = 137"

subsection \<open>Strings and paths\<close>

text \<open>\<^verbatim>\<open>s.startswith(p)\<close>.\<close>

fun startswith :: "string \<Rightarrow> string \<Rightarrow> bool" where
  "startswith s [] = True"
| "startswith [] (p # ps) = False"
| "startswith (c # cs) (p # ps) = (c = p \<and> startswith cs ps)"

text \<open>\<^verbatim>\<open>needle in haystack\<close> on strings: a contiguous occurrence anywhere.\<close>

fun str_in :: "string \<Rightarrow> string \<Rightarrow> bool" where
  "str_in needle [] = (needle = [])"
| "str_in needle (c # cs) = (startswith (c # cs) needle \<or> str_in needle cs)"

text \<open>\<^verbatim>\<open>s.split(sep)\<close> for a one-character separator.\<close>

fun split_aux :: "char \<Rightarrow> string \<Rightarrow> string \<Rightarrow> string list" where
  "split_aux sep cur [] = [cur]"
| "split_aux sep cur (c # cs) =
     (if c = sep then cur # split_aux sep [] cs else split_aux sep (cur @ [c]) cs)"

definition str_split :: "char \<Rightarrow> string \<Rightarrow> string list" where
  "str_split sep s = split_aux sep [] s"

text \<open>
  One round of the loop of \<^verbatim>\<open>posixpath.join\<close>: a component that starts with the
  separator replaces what was joined so far; otherwise it is appended, with a
  separator unless the path is empty or already ends with one.
\<close>

definition join_step :: "string \<Rightarrow> string \<Rightarrow> string" where
  "join_step path b =
     (if startswith b ''/'' then b
      else if path = [] \<or> last path = CHR ''/'' then path @ b
      else path @ ''/'' @ b)"

definition os_path_join :: "string \<Rightarrow> string list \<Rightarrow> string" where
  "os_path_join a ps = foldl join_step a ps"

subsection \<open>The output path of a model\<close>

text \<open>
  \<^verbatim>\<open>GlobalTrainServicer._get_model_path\<close>. The first argument is the servicer's
  \<^verbatim>\<open>self.training_output_dir\<close>, the second the optional \<^verbatim>\<open>training_output_dir\<close>
  parameter.
\<close>

definition get_model_path :: "string \<Rightarrow> string option \<Rightarrow> string \<Rightarrow> string \<Rightarrow> string" where
  "get_model_path self_training_output_dir training_output_dir model_name training_id =
     (case training_output_dir of
        Some dir \<Rightarrow>
          if str_in training_id dir then os_path_join dir [model_name]
          else os_path_join dir [training_id, model_name]
      | None \<Rightarrow> os_path_join self_training_output_dir [training_id, model_name])"

text \<open>
  The rule as the specification words it: the hint is tested for holding the training
  id as one of its path components.
\<close>

definition path_components :: "string \<Rightarrow> string list" where
  "path_components p = str_split (CHR ''/'') p"

definition spec_model_path :: "string \<Rightarrow> string option \<Rightarrow> string \<Rightarrow> string \<Rightarrow> string" where
  "spec_model_path default_output_dir hint model_name training_id =
     (case hint of
        None \<Rightarrow> os_path_join default_output_dir [training_id, model_name]
      | Some h \<Rightarrow>
          if training_id \<in> set (path_components h) then os_path_join h [model_name]
          else os_path_join h [training_id, model_name])"

subsection \<open>Modules, requests and keyword arguments\<close>

text \<open>
  The keyword arguments of a module's \<^verbatim>\<open>train\<close>, as the request mapper builds them:
  parameter names with their values.
\<close>

type_synonym train_kwargs = "(string \<times> string) list"

text \<open>
  What \<^verbatim>\<open>train\<close> returns: an object with a \<^verbatim>\<open>save(path)\<close> method, which returns
  (\<open>None\<close>) or raises (\<open>Some e\<close>).
\<close>

datatype trained_model = TrainedModel (save: "string \<Rightarrow> exn option")

text \<open>
  A module class: its \<^verbatim>\<open>__module__\<close>, its \<^verbatim>\<open>__name__\<close> and its \<^verbatim>\<open>train\<close>
  entry point.
\<close>

record caikit_module =
  dunder_module :: string
  dunder_name :: string
  train :: "train_kwargs \<Rightarrow> exn + trained_model"

text \<open>
  A request: \<^verbatim>\<open>request.DESCRIPTOR.name\<close>, \<^verbatim>\<open>request.model_name\<close> and the fields
  that the mapper turns into keyword arguments.
\<close>

record request =
  DESCRIPTOR_name :: string
  req_model_name :: string
  req_fields :: "(string \<times> string) list"

text \<open>
  The dictionary \<^verbatim>\<open>kwargs\<close> of \<^verbatim>\<open>run_training_job\<close>, which the executor receives
  as \<^verbatim>\<open>module_class\<close>, \<^verbatim>\<open>model_path\<close> and the rest. The mapper's dictionary is taken
  not to hold the two keys \<^verbatim>\<open>module_class\<close> and \<^verbatim>\<open>model_path\<close> itself.
\<close>

record kwargs =
  module_class :: caikit_module
  model_path :: string
  train_args :: train_kwargs

text \<open>The reply of \<^verbatim>\<open>Train\<close>.\<close>

record TrainingJob =
  job_model_name :: string
  job_training_id :: string

subsection \<open>The collaborators outside the file\<close>

text \<open>
  \<^item> \<open>import_getattr path name\<close>: \<^verbatim>\<open>getattr(importlib.import_module(path), name)\<close>,
    with \<open>Inl\<close> when either raises;
  \<^item> \<open>MODULE_REGISTRY\<close>: the values of \<^verbatim>\<open>caikit.core.MODULE_REGISTRY\<close>, in order;
  \<^item> \<open>snake_to_upper_camel\<close> and \<open>build_caikit_library_request_dict\<close>: the helpers of
    \<^verbatim>\<open>caikit.runtime.utils.servicer_util\<close>;
  \<^item> \<open>DestroyableThread ev f kw\<close>: \<^verbatim>\<open>DestroyableThread(event, f, **kw)\<close>, run and then
    asked with \<^verbatim>\<open>get_or_throw()\<close>: the value or the exception it yields, and the state
    in which it leaves the event;
  \<^item> \<open>child_killed\<close>: \<open>None\<close> when the child process gets to the end of its \<^verbatim>\<open>run\<close>,
    \<open>Some c\<close> when it dies before that with exit code \<open>c\<close>;
  \<^item> \<open>load_model\<close> and \<open>retrieve_model\<close>: the two methods of the model manager, as what
    they raise or return.
\<close>

record env =
  import_getattr :: "string \<Rightarrow> string \<Rightarrow> exn + caikit_module"
  MODULE_REGISTRY :: "caikit_module list"
  snake_to_upper_camel :: "string \<Rightarrow> string"
  build_caikit_library_request_dict :: "request \<Rightarrow> caikit_module \<Rightarrow> exn + train_kwargs"
  DestroyableThread ::
    "bool \<Rightarrow> (train_kwargs \<Rightarrow> exn + trained_model) \<Rightarrow> train_kwargs
      \<Rightarrow> (exn + trained_model) \<times> bool"
  child_killed :: "int option"
  load_model :: "string \<Rightarrow> string \<Rightarrow> string \<Rightarrow> exn option"
  retrieve_model :: "string \<Rightarrow> exn + string"

subsection \<open>The local executor\<close>

text \<open>
  An executor holds the \<^verbatim>\<open>threading.Event\<close> it shares with the launcher; the field is
  the event's \<^verbatim>\<open>is_set()\<close>.
\<close>

record LocalTrainSaveExecutor =
  event :: bool

text \<open>
  The \<^verbatim>\<open>try\<close> block of \<^verbatim>\<open>LocalTrainSaveExecutor.train_and_save_model\<close>: train on the
  worker thread, then save what it returned.
\<close>

definition local_try :: "env \<Rightarrow> bool \<Rightarrow> kwargs \<Rightarrow> (exn + unit) \<times> bool" where
  "local_try ev_env ev kw =
     (case DestroyableThread ev_env ev (train (module_class kw)) (train_args kw) of
        (Inl e, ev') \<Rightarrow> (Inl e, ev')
      | (Inr model, ev') \<Rightarrow>
          (case save model (model_path kw) of
             Some e \<Rightarrow> (Inl e, ev')
           | None \<Rightarrow> (Inr (), ev')))"

text \<open>The three \<^verbatim>\<open>except\<close> clauses of the method, in their order.\<close>

fun local_except :: "exn \<Rightarrow> exn" where
  "local_except (CaikitRuntimeException c m) = CaikitRuntimeException c m"
| "local_except (PyException k m) =
     (if k = TypeError \<or> k = ValueError then
        CaikitRuntimeException INVALID_ARGUMENT
          (''Exception raised during training. This may be a problem with your input: '' @ m)
      else CaikitRuntimeException INTERNAL (''Exception raised during training: '' @ m))"

definition local_train_and_save_model ::
  "env \<Rightarrow> 'a LocalTrainSaveExecutor_scheme \<Rightarrow> kwargs
    \<Rightarrow> (exn + unit) \<times> 'a LocalTrainSaveExecutor_scheme" where
  "local_train_and_save_model ev_env self kw =
     (case local_try ev_env (event self) kw of
        (Inl e, ev') \<Rightarrow> (Inl (local_except e), self\<lparr>event := ev'\<rparr>)
      | (Inr u, ev') \<Rightarrow> (Inr (), self\<lparr>event := ev'\<rparr>))"

text \<open>
  \<^verbatim>\<open>LocalTrainSaveExecutor.cancel\<close>: the body is a docstring and a comment.
\<close>

definition local_cancel :: "LocalTrainSaveExecutor \<Rightarrow> LocalTrainSaveExecutor" where
  "local_cancel self = self"

subsection \<open>The process interface\<close>

text \<open>
  The child process object \<^verbatim>\<open>_ErrorCaptureProcess\<close>, a \<^verbatim>\<open>multiprocessing\<close> process of the
  fork context, as the parent holds it: the methods called on it so far (whether they
  returned or raised), the arguments \<^verbatim>\<open>set_args\<close> stored, the attribute \<^verbatim>\<open>error\<close>, and
  where the child is. \<open>Running\<close> is a started child that \<^verbatim>\<open>poll()\<close> finds alive,
  \<open>Finished c\<close> a started child that has exited with code \<open>c\<close>.
\<close>

datatype proc_call = SetArgs | Start | Terminate | Close | Join

datatype process_state = NotStarted | Running | Finished int | Closed

record ErrorCaptureProcess =
  calls :: "proc_call list"
  proc_args :: "kwargs option"
  error :: "exn option"
  popen :: process_state

text \<open>\<^verbatim>\<open>_ErrorCaptureProcess.__init__\<close>.\<close>

definition new_process :: ErrorCaptureProcess where
  "new_process = \<lparr>calls = [], proc_args = None, error = None, popen = NotStarted\<rparr>"

text \<open>\<^verbatim>\<open>_ErrorCaptureProcess.set_args\<close>.\<close>

definition set_args :: "kwargs \<Rightarrow> ErrorCaptureProcess \<Rightarrow> ErrorCaptureProcess" where
  "set_args kw p = p\<lparr>calls := calls p @ [SetArgs], proc_args := Some kw\<rparr>"

text \<open>
  The methods that the class inherits from \<^verbatim>\<open>multiprocessing.process.BaseProcess\<close>, with
  the checks they make; \<open>None\<close> is a return, \<open>Some e\<close> a raise.
\<close>

definition closed_error :: exn where
  "closed_error = PyException ValueError ''process object is closed''"

definition still_running_error :: exn where
  "still_running_error =
     PyException ValueError
       (''Cannot close a process while it is still running. ''
        @ ''You should first call join() or terminate().'')"

definition no_terminate_error :: exn where
  "no_terminate_error =
     PyException AttributeError
       ([CHR 0x27] @ ''NoneType'' @ [CHR 0x27] @ '' object has no attribute ''
        @ [CHR 0x27] @ ''terminate'' @ [CHR 0x27])"

text \<open>
  \<^verbatim>\<open>start()\<close>: refuses a closed and a started process, forks the child and deletes the
  stored arguments from the parent's object.
\<close>

definition start :: "ErrorCaptureProcess \<Rightarrow> exn option \<times> ErrorCaptureProcess" where
  "start p =
     (let p' = p\<lparr>calls := calls p @ [Start]\<rparr>
      in case popen p of
           Closed \<Rightarrow> (Some closed_error, p')
         | NotStarted \<Rightarrow> (None, p'\<lparr>proc_args := None, popen := Running\<rparr>)
         | Running \<Rightarrow> (Some (PyException AssertionError ''cannot start a process twice''), p')
         | Finished c \<Rightarrow>
             (Some (PyException AssertionError ''cannot start a process twice''), p'))"

text \<open>
  \<^verbatim>\<open>terminate()\<close>: refuses a closed process, fails on a process that was never started
  (\<^verbatim>\<open>self._popen\<close> is \<^verbatim>\<open>None\<close>), and otherwise sends the signal and returns. The child
  that was running is still found running straight after the call.
\<close>

definition terminate :: "ErrorCaptureProcess \<Rightarrow> exn option \<times> ErrorCaptureProcess" where
  "terminate p =
     (let p' = p\<lparr>calls := calls p @ [Terminate]\<rparr>
      in case popen p of
           Closed \<Rightarrow> (Some closed_error, p')
         | NotStarted \<Rightarrow> (Some no_terminate_error, p')
         | Running \<Rightarrow> (None, p')
         | Finished c \<Rightarrow> (None, p'))"

text \<open>\<^verbatim>\<open>close()\<close>: raises while the child is still running, otherwise releases it.\<close>

definition close :: "ErrorCaptureProcess \<Rightarrow> exn option \<times> ErrorCaptureProcess" where
  "close p =
     (let p' = p\<lparr>calls := calls p @ [Close]\<rparr>
      in case popen p of
           Running \<Rightarrow> (Some still_running_error, p')
         | NotStarted \<Rightarrow> (None, p'\<lparr>popen := Closed\<rparr>)
         | Finished c \<Rightarrow> (None, p'\<lparr>popen := Closed\<rparr>)
         | Closed \<Rightarrow> (None, p'))"

text \<open>
  \<^verbatim>\<open>join()\<close>: refuses a closed and a never started process, otherwise waits until the
  child has exited; \<open>status\<close> is the code a running child exits with.
\<close>

definition join :: "int \<Rightarrow> ErrorCaptureProcess \<Rightarrow> exn option \<times> ErrorCaptureProcess" where
  "join status p =
     (let p' = p\<lparr>calls := calls p @ [Join]\<rparr>
      in case popen p of
           Closed \<Rightarrow> (Some closed_error, p')
         | NotStarted \<Rightarrow>
             (Some (PyException AssertionError ''can only join a started process''), p')
         | Running \<Rightarrow> (None, p'\<lparr>popen := Finished status\<rparr>)
         | Finished c \<Rightarrow> (None, p'))"

text \<open>The property \<^verbatim>\<open>exitcode\<close>.\<close>

definition exitcode :: "ErrorCaptureProcess \<Rightarrow> exn + int option" where
  "exitcode p =
     (case popen p of
        Closed \<Rightarrow> Inl closed_error
      | NotStarted \<Rightarrow> Inr None
      | Running \<Rightarrow> Inr None
      | Finished c \<Rightarrow> Inr (Some c))"

text \<open>
  \<^verbatim>\<open>_ErrorCaptureProcess.run\<close>, which the child calls on its own copy of the object:
  what the target did is either a return or an exception, and the exception is stored in
  the \<^verbatim>\<open>error\<close> of that copy.
\<close>

definition run :: "exn + unit \<Rightarrow> ErrorCaptureProcess \<Rightarrow> ErrorCaptureProcess" where
  "run target_result p =
     (case target_result of Inl err \<Rightarrow> p\<lparr>error := Some err\<rparr> | Inr u \<Rightarrow> p)"

subsection \<open>The subprocess executor\<close>

record SubProcessTrainSaveExecutor = LocalTrainSaveExecutor +
  proc :: ErrorCaptureProcess

definition SubProcessTrainSaveExecutor_init :: "bool \<Rightarrow> SubProcessTrainSaveExecutor" where
  "SubProcessTrainSaveExecutor_init ev = \<lparr>event = ev, proc = new_process\<rparr>"

text \<open>
  \<^verbatim>\<open>SubProcessTrainSaveExecutor.cancel\<close>: \<^verbatim>\<open>terminate()\<close>, \<^verbatim>\<open>close()\<close>, then the raise
  of CANCELLED; an exception of either call leaves the method at once.
\<close>

definition sub_cancel ::
  "SubProcessTrainSaveExecutor \<Rightarrow> (exn + unit) \<times> SubProcessTrainSaveExecutor" where
  "sub_cancel self =
     (case terminate (proc self) of
        (Some e, p1) \<Rightarrow> (Inl e, self\<lparr>proc := p1\<rparr>)
      | (None, p1) \<Rightarrow>
          (case close p1 of
             (Some e, p2) \<Rightarrow> (Inl e, self\<lparr>proc := p2\<rparr>)
           | (None, p2) \<Rightarrow>
               (Inl (CaikitRuntimeException CANCELLED ''Training request terminated''),
                self\<lparr>proc := p2\<rparr>)))"

text \<open>\<^verbatim>\<open>str(n)\<close> for an integer, for the message that prints the exit code.\<close>

fun str_nat :: "nat \<Rightarrow> string" where
  "str_nat n =
     (if n < 10 then [''0123456789'' ! n]
      else str_nat (n div 10) @ [''0123456789'' ! (n mod 10)])"

declare str_nat.simps [simp del]

definition str_int :: "int \<Rightarrow> string" where
  "str_int i = (if i < 0 then ''-'' @ str_nat (nat (- i)) else str_nat (nat i))"

text \<open>
  The part of \<^verbatim>\<open>SubProcessTrainSaveExecutor.train_and_save_model\<close> after \<^verbatim>\<open>join\<close>:
  first the parent's \<^verbatim>\<open>self.proc.error\<close>, then the exit code.
\<close>

definition after_join :: "ErrorCaptureProcess \<Rightarrow> exn + unit" where
  "after_join p =
     (case error p of
        Some e \<Rightarrow>
          if is_caikit e then Inl e
          else Inl (CaikitRuntimeException INTERNAL ''Error caught in training subprocess'')
      | None \<Rightarrow>
          (case exitcode p of
             Inl e \<Rightarrow> Inl e
           | Inr None \<Rightarrow> Inr ()
           | Inr (Some c) \<Rightarrow>
               if c \<noteq> 0 then
                 if c = OOM_EXIT_CODE then
                   Inl (CaikitRuntimeException RESOURCE_EXHAUSTED
                          ''Training process died with OOM error!'')
                 else
                   Inl (CaikitRuntimeException UNKNOWN
                          (''Training process died with exit code '' @ str_int c))
               else Inr ()))"

text \<open>
  \<^verbatim>\<open>SubProcessTrainSaveExecutor.train_and_save_model\<close>: store the arguments, start the
  child, cancel if the event is set, join, classify. \<open>status\<close> is the code the child
  exits with when it is left to run.
\<close>

definition sub_train_and_save_model ::
  "int \<Rightarrow> SubProcessTrainSaveExecutor \<Rightarrow> kwargs
    \<Rightarrow> (exn + unit) \<times> SubProcessTrainSaveExecutor" where
  "sub_train_and_save_model status self kw =
     (case start (set_args kw (proc self)) of
        (Some e, p2) \<Rightarrow> (Inl e, self\<lparr>proc := p2\<rparr>)
      | (None, p2) \<Rightarrow>
          (let self2 = self\<lparr>proc := p2\<rparr>;
               cancelled = (if event self2 then sub_cancel self2 else (Inr (), self2))
           in case cancelled of
                (Inl e, self3) \<Rightarrow> (Inl e, self3)
              | (Inr u, self3) \<Rightarrow>
                  (case join status (proc self3) of
                     (Some e, p4) \<Rightarrow> (Inl e, self3\<lparr>proc := p4\<rparr>)
                   | (None, p4) \<Rightarrow> (after_join p4, self3\<lparr>proc := p4\<rparr>))))"

text \<open>
  The child process, forked by \<^verbatim>\<open>start()\<close>: it has its own copy of the process object
  and of the executor. Left to run, it calls \<^verbatim>\<open>run\<close> on its copy, where the target is
  the inherited local method, and exits with 0 (an exception of the target is caught by
  \<^verbatim>\<open>run\<close>); killed before that, it exits with the code of \<open>child_killed\<close>. The result is
  the child's copy of the object at its exit and the exit code. Only the exit code is
  seen by the parent.
\<close>

definition child_process ::
  "env \<Rightarrow> SubProcessTrainSaveExecutor \<Rightarrow> kwargs \<Rightarrow> ErrorCaptureProcess \<times> int" where
  "child_process ev_env self kw =
     (let copy = set_args kw (proc self)
      in case child_killed ev_env of
           Some c \<Rightarrow> (copy, c)
         | None \<Rightarrow> (run (fst (local_train_and_save_model ev_env self kw)) copy, 0))"

subsection \<open>The servicer\<close>

text \<open>
  The runnable that \<^verbatim>\<open>run_training_job\<close> builds is an object of one of the two
  executor classes.
\<close>

datatype executor =
    Local LocalTrainSaveExecutor
  | SubProcess SubProcessTrainSaveExecutor

text \<open>
  The method call \<^verbatim>\<open>runnable_executor.train_and_save_model(**kwargs)\<close> on either class.
  For the subprocess executor the child contributes its exit code.
\<close>

fun train_and_save_model :: "env \<Rightarrow> executor \<Rightarrow> kwargs \<Rightarrow> (exn + unit) \<times> executor" where
  "train_and_save_model ev_env (Local self) kw =
     (case local_train_and_save_model ev_env self kw of (r, self') \<Rightarrow> (r, Local self'))"
| "train_and_save_model ev_env (SubProcess self) kw =
     (case sub_train_and_save_model (snd (child_process ev_env self kw)) self kw of
        (r, self') \<Rightarrow> (r, SubProcess self'))"

text \<open>
  The model manager is seen through the calls made on it. The handle that the pool
  returns is represented by the outcome its job reaches: \<^verbatim>\<open>result()\<close> returns the
  value or raises the exception.
\<close>

datatype mm_call = LoadModel string string string | RetrieveModel string

datatype job_value = PyNone | RetrievedModel string

record Future =
  fut_result :: "exn + job_value"

record GlobalTrainServicer =
  training_output_dir :: string
  auto_load_trained_model :: bool
  use_subprocess :: bool
  library :: string
  training_map :: "string \<rightharpoonup> Future"
  model_manager :: "mm_call list"

text \<open>The gRPC context: the training ids whose cancellation callback was added.\<close>

record ServicerContext =
  callbacks :: "string list"

text \<open>\<^verbatim>\<open>GlobalTrainServicer._load_trained_model\<close>.\<close>

definition load_trained_model ::
  "env \<Rightarrow> mm_call list \<Rightarrow> string \<Rightarrow> string \<Rightarrow> (exn + job_value) \<times> mm_call list" where
  "load_trained_model ev_env mm name path =
     (let mm1 = mm @ [LoadModel name path ''standalone'']
      in case load_model ev_env name path ''standalone'' of
           Some e \<Rightarrow> (Inl e, mm1)
         | None \<Rightarrow>
             (let mm2 = mm1 @ [RetrieveModel name]
              in case retrieve_model ev_env name of
                   Inl e \<Rightarrow> (Inl e, mm2)
                 | Inr m \<Rightarrow> (Inr (RetrievedModel m), mm2)))"

text \<open>
  The unit of work that \<^verbatim>\<open>run_async\<close> submits: with auto-load, the inner function
  \<^verbatim>\<open>target\<close> (train and save, then load); without, the executor's method itself.
\<close>

definition job_target ::
  "env \<Rightarrow> bool \<Rightarrow> executor \<Rightarrow> string \<Rightarrow> string \<Rightarrow> kwargs \<Rightarrow> mm_call list
    \<Rightarrow> (exn + job_value) \<times> mm_call list" where
  "job_target ev_env auto_load runnable_executor name path kw mm =
     (if auto_load then
        (case train_and_save_model ev_env runnable_executor kw of
           (Inl e, ex) \<Rightarrow> (Inl e, mm)
         | (Inr u, ex) \<Rightarrow> load_trained_model ev_env mm name path)
      else
        (case train_and_save_model ev_env runnable_executor kw of
           (Inl e, ex) \<Rightarrow> (Inl e, mm)
         | (Inr u, ex) \<Rightarrow> (Inr PyNone, mm)))"

text \<open>\<^verbatim>\<open>GlobalTrainServicer.run_async\<close>: the job is run and its handle returned.\<close>

definition run_async ::
  "env \<Rightarrow> GlobalTrainServicer \<Rightarrow> executor \<Rightarrow> kwargs \<Rightarrow> string \<Rightarrow> string
    \<Rightarrow> Future \<times> GlobalTrainServicer" where
  "run_async ev_env self runnable_executor kw name path =
     (case job_target ev_env (auto_load_trained_model self) runnable_executor name path kw
             (model_manager self) of
        (r, mm) \<Rightarrow> (\<lparr>fut_result = r\<rparr>, self\<lparr>model_manager := mm\<rparr>))"

text \<open>
  The callback \<^verbatim>\<open>cancel_future\<close> of \<^verbatim>\<open>run_training_job\<close>, on whether the future is
  running and the event: the new state of the event, and whether
  \<^verbatim>\<open>thread_future.cancel()\<close> was called.
\<close>

definition cancel_future :: "bool \<Rightarrow> bool \<Rightarrow> bool \<times> bool" where
  "cancel_future running ev = (if running \<and> \<not> ev then (True, True) else (ev, False))"

text \<open>\<^verbatim>\<open>GlobalTrainServicer.run_training_job\<close>.\<close>

definition run_training_job ::
  "env \<Rightarrow> GlobalTrainServicer \<Rightarrow> request \<Rightarrow> caikit_module \<Rightarrow> string \<Rightarrow> string option
    \<Rightarrow> ServicerContext \<Rightarrow> bool
    \<Rightarrow> (exn + TrainingJob) \<times> GlobalTrainServicer \<times> ServicerContext" where
  "run_training_job ev_env self req model tid hint ctx wait =
     (let name = req_model_name req;
          path = get_model_path (training_output_dir self) hint name tid
      in case build_caikit_library_request_dict ev_env req model of
           Inl e \<Rightarrow> (Inl e, self, ctx)
         | Inr d \<Rightarrow>
             (let kw = \<lparr>module_class = model, model_path = path, train_args = d\<rparr>;
                  ev = False;
                  target =
                    (if use_subprocess self
                     then SubProcess (SubProcessTrainSaveExecutor_init ev)
                     else Local \<lparr>event = ev\<rparr>);
                  submitted = run_async ev_env self target kw name path;
                  thread_future = fst submitted;
                  self1 = snd submitted;
                  self2 = self1\<lparr>training_map := (training_map self1)(tid \<mapsto> thread_future)\<rparr>;
                  ctx1 = ctx\<lparr>callbacks := callbacks ctx @ [tid]\<rparr>;
                  job = \<lparr>job_model_name = req_model_name req, job_training_id = tid\<rparr>
              in if wait then
                   (case fut_result thread_future of
                      Inl e \<Rightarrow> (Inl e, self2, ctx1)
                    | Inr v \<Rightarrow> (Inr job, self2, ctx1))
                 else (Inr job, self2, ctx1)))"

subsection \<open>Resolving the module of a request\<close>

definition ascii_uppercase :: string where
  "ascii_uppercase = ''ABCDEFGHIJKLMNOPQRSTUVWXYZ''"

definition ascii_lowercase :: string where
  "ascii_lowercase = ''abcdefghijklmnopqrstuvwxyz''"

text \<open>\<^verbatim>\<open>s.lower()\<close>, on the ASCII letters a descriptor name is made of.\<close>

definition str_lower :: "string \<Rightarrow> string" where
  "str_lower s =
     map (\<lambda>c. case map_of (zip ascii_uppercase ascii_lowercase) c of
                 Some l \<Rightarrow> l | None \<Rightarrow> c) s"

text \<open>\<^verbatim>\<open>s.replace(pat, "")\<close>: every occurrence of \<open>pat\<close>, from the left, is removed.\<close>

function str_remove :: "string \<Rightarrow> string \<Rightarrow> string" where
  "str_remove pat s =
     (if s = [] then []
      else if pat \<noteq> [] \<and> startswith s pat then str_remove pat (drop (length pat) s)
      else hd s # str_remove pat (tl s))"
  by pat_completeness auto
termination
  by (relation "measure (\<lambda>(pat, s). length s)") auto

declare str_remove.simps [simp del]

text \<open>
  \<^verbatim>\<open>re.split("(?<=.)(?=[A-Z])", s)\<close>: the string is cut in front of every capital
  letter that follows a character other than a newline.
\<close>

fun re_split_aux :: "string \<Rightarrow> string \<Rightarrow> string list" where
  "re_split_aux cur [] = [cur]"
| "re_split_aux cur (c # cs) =
     (if cur \<noteq> [] \<and> last cur \<noteq> CHR 0x0A \<and> c \<in> set ascii_uppercase
      then cur # re_split_aux [c] cs
      else re_split_aux (cur @ [c]) cs)"

definition re_split :: "string \<Rightarrow> string list" where
  "re_split s = re_split_aux [] s"

text \<open>
  The first strategy of \<^verbatim>\<open>Train\<close>: import
  \<^verbatim>\<open>{library}.{split[0].lower()}.{split[1].lower()}\<close> and take the attribute
  \<^verbatim>\<open>"".join(split[2:])\<close>. \<^verbatim>\<open>split[1]\<close> raises when the list has one element.
\<close>

definition primary_strategy :: "env \<Rightarrow> string \<Rightarrow> string \<Rightarrow> exn + caikit_module" where
  "primary_strategy ev_env lib desc_name =
     (let split = re_split desc_name
      in if length split < 2 then Inl (PyException IndexError ''list index out of range'')
         else import_getattr ev_env
                (lib @ ''.'' @ str_lower (split ! 0) @ ''.'' @ str_lower (split ! 1))
                (concat (drop 2 split)))"

text \<open>
  The second strategy: the loop over the registry in the \<^verbatim>\<open>except\<close> clause. An entry
  whose \<^verbatim>\<open>__module__\<close> has fewer than three dotted parts makes \<^verbatim>\<open>module_split[2]\<close>
  (or \<^verbatim>\<open>module_split[1]\<close>) raise.
\<close>

fun fallback_strategy ::
  "(string \<Rightarrow> string) \<Rightarrow> string \<Rightarrow> caikit_module list \<Rightarrow> exn + caikit_module option" where
  "fallback_strategy camel desc_name [] = Inr None"
| "fallback_strategy camel desc_name (m # ms) =
     (let module_split = str_split (CHR ''.'') (dunder_module m)
      in if length module_split < 3 then
           Inl (PyException IndexError ''list index out of range'')
         else if camel (module_split ! 1 @ ''_'' @ module_split ! 2 @ ''_'' @ dunder_name m)
                   = desc_name
         then Inr (Some m)
         else fallback_strategy camel desc_name ms)"

text \<open>Both strategies: the value of \<^verbatim>\<open>model\<close> in front of the test for \<^verbatim>\<open>None\<close>.\<close>

definition resolve_model :: "env \<Rightarrow> string \<Rightarrow> string \<Rightarrow> exn + caikit_module option" where
  "resolve_model ev_env lib desc_name =
     (case primary_strategy ev_env lib desc_name of
        Inr m \<Rightarrow> Inr (Some m)
      | Inl e \<Rightarrow> fallback_strategy (snake_to_upper_camel ev_env) desc_name (MODULE_REGISTRY ev_env))"

subsection \<open>Train\<close>

text \<open>
  The \<^verbatim>\<open>try\<close> block of \<^verbatim>\<open>GlobalTrainServicer.Train\<close>. \<open>tid\<close> is the value of
  \<^verbatim>\<open>str(uuid4())\<close>.
\<close>

definition Train_try ::
  "env \<Rightarrow> GlobalTrainServicer \<Rightarrow> request \<Rightarrow> ServicerContext \<Rightarrow> string
    \<Rightarrow> (exn + TrainingJob) \<times> GlobalTrainServicer \<times> ServicerContext" where
  "Train_try ev_env self req ctx tid =
     (let desc_name = str_remove ''TrainRequest'' (DESCRIPTOR_name req)
      in case resolve_model ev_env (library self) desc_name of
           Inl e \<Rightarrow> (Inl e, self, ctx)
         | Inr None \<Rightarrow>
             (Inl (CaikitRuntimeException INTERNAL
                     ''Global Train not able to parse module for this Train Request''),
              self, ctx)
         | Inr (Some model) \<Rightarrow>
             run_training_job ev_env self req model tid (Some (training_output_dir self))
               ctx False)"

text \<open>
  The \<^verbatim>\<open>except\<close> clauses of \<^verbatim>\<open>Train\<close>, in their order. The clause for
  \<^verbatim>\<open>concurrent.futures.CancelledError\<close> reads \<^verbatim>\<open>err.message\<close> first, an attribute
  the class does not have, so the clause itself raises.
\<close>

definition no_attribute_message :: string where
  "no_attribute_message =
     [CHR 0x27] @ ''CancelledError'' @ [CHR 0x27] @ '' object has no attribute ''
       @ [CHR 0x27] @ ''message'' @ [CHR 0x27]"

fun Train_except :: "exn \<Rightarrow> exn" where
  "Train_except (CaikitRuntimeException c m) = CaikitRuntimeException c m"
| "Train_except (PyException k m) =
     (if k = CancelledError then
        PyException AttributeError no_attribute_message
      else if k = TypeError \<or> k = ValueError then
        CaikitRuntimeException INVALID_ARGUMENT
          (''Exception raised during inference. This may be a problem with your input: '' @ m)
      else CaikitRuntimeException INTERNAL ''Unhandled exception during training'')"

definition Train ::
  "env \<Rightarrow> GlobalTrainServicer \<Rightarrow> request \<Rightarrow> ServicerContext \<Rightarrow> string
    \<Rightarrow> (exn + TrainingJob) \<times> GlobalTrainServicer \<times> ServicerContext" where
  "Train ev_env self req ctx tid =
     (case Train_try ev_env self req ctx tid of
        (Inl e, self', ctx') \<Rightarrow> (Inl (Train_except e), self', ctx')
      | (Inr job, self', ctx') \<Rightarrow> (Inr job, self', ctx'))"

subsection \<open>Reference definitions and sample inputs\<close>

text \<open>
  The order of the classification after \<^verbatim>\<open>join\<close> as the specification lists it:
  a captured runtime exception, then the exit code, then any other captured exception.
\<close>

definition spec_after_join :: "ErrorCaptureProcess \<Rightarrow> exn + unit" where
  "spec_after_join p =
     (if (case error p of Some e \<Rightarrow> is_caikit e | None \<Rightarrow> False) then Inl (the (error p))
      else
        (case exitcode p of
           Inl e \<Rightarrow> Inl e
         | Inr c \<Rightarrow>
             if c = Some OOM_EXIT_CODE then
               Inl (CaikitRuntimeException RESOURCE_EXHAUSTED
                      ''Training process died with OOM error!'')
             else if c \<noteq> None \<and> c \<noteq> Some 0 then
               Inl (CaikitRuntimeException UNKNOWN
                      (''Training process died with exit code '' @ str_int (the c)))
             else if error p \<noteq> None then
               Inl (CaikitRuntimeException INTERNAL ''Error caught in training subprocess'')
             else Inr ()))"

text \<open>How often \<^verbatim>\<open>load_model\<close> was called on the model manager.\<close>

fun is_load :: "mm_call \<Rightarrow> bool" where
  "is_load (LoadModel name path kind) = True"
| "is_load (RetrieveModel name) = False"

definition load_calls :: "mm_call list \<Rightarrow> nat" where
  "load_calls cs = length (filter is_load cs)"

text \<open>
  A module whose \<^verbatim>\<open>train\<close> has the given outcome, a trained model whose \<^verbatim>\<open>save\<close>
  has the given outcome, and an environment in which the import fails, the registry is
  the given list, the worker thread runs its function, the child process runs to its
  end, and the model manager loads and retrieves.
\<close>

definition saving :: "exn option \<Rightarrow> trained_model" where
  "saving r = TrainedModel (\<lambda>path. r)"

definition sample_module :: "(exn + trained_model) \<Rightarrow> caikit_module" where
  "sample_module r =
     \<lparr>dunder_module = ''sample_lib.modules.sample_task.sample_implementation'',
      dunder_name = ''SampleModule'',
      train = (\<lambda>kw. r)\<rparr>"

definition sample_env :: "caikit_module list \<Rightarrow> env" where
  "sample_env registry =
     \<lparr>import_getattr = (\<lambda>path name. Inl (PyException OtherException ''No module named sample_lib'')),
      MODULE_REGISTRY = registry,
      snake_to_upper_camel =
        (\<lambda>s. if s = ''modules_sample_task_SampleModule'' then ''ModulesSampleTaskSampleModule''
              else s),
      build_caikit_library_request_dict = (\<lambda>r m. Inr (req_fields r)),
      DestroyableThread = (\<lambda>ev f kw. (f kw, ev)),
      child_killed = None,
      load_model = (\<lambda>name path kind. None),
      retrieve_model = (\<lambda>name. Inr name)\<rparr>"

text \<open>The same environment with a request mapper that raises.\<close>

definition failing_mapper_env :: "caikit_module list \<Rightarrow> exn \<Rightarrow> env" where
  "failing_mapper_env registry e =
     (sample_env registry)\<lparr>build_caikit_library_request_dict := (\<lambda>r m. Inl e)\<rparr>"

text \<open>The sample environment with a model manager whose \<^verbatim>\<open>load_model\<close> raises.\<close>

definition failing_load_env :: "exn \<Rightarrow> env" where
  "failing_load_env e = (sample_env [])\<lparr>load_model := (\<lambda>name path kind. Some e)\<rparr>"

text \<open>A registered module whose \<^verbatim>\<open>__module__\<close> has a single part.\<close>

definition short_module :: caikit_module where
  "short_module = (sample_module (Inr (saving None)))\<lparr>dunder_module := ''sample_lib''\<rparr>"

definition sample_servicer :: GlobalTrainServicer where
  "sample_servicer =
     \<lparr>training_output_dir = ''/out'', auto_load_trained_model = True, use_subprocess = False,
      library = ''sample_lib'', training_map = Map.empty, model_manager = []\<rparr>"

definition sample_request :: request where
  "sample_request =
     \<lparr>DESCRIPTOR_name = ''ModulesSampleTaskSampleModuleTrainRequest'',
      req_model_name = ''bar'',
      req_fields = [(''batch_size'', ''42'')]\<rparr>"

definition sample_ctx :: ServicerContext where
  "sample_ctx = \<lparr>callbacks = []\<rparr>"

definition sample_kwargs :: "(exn + trained_model) \<Rightarrow> kwargs" where
  "sample_kwargs r =
     \<lparr>module_class = sample_module r, model_path = ''/out/id1/bar'',
      train_args = [(''batch_size'', ''42'')]\<rparr>"

section \<open>Properties\<close>

subsection \<open>Facts about strings and paths\<close>

lemma startswith_iff: "startswith s p \<longleftrightarrow> (\<exists>r. s = p @ r)"
  by (induction s p rule: startswith.induct) auto

lemma str_in_iff: "str_in needle h \<longleftrightarrow> (\<exists>ps ss. h = ps @ needle @ ss)"
proof (induction h)
  case Nil
  then show ?case by auto
next
  case (Cons c cs)
  show ?case
  proof
    assume "str_in needle (c # cs)"
    then consider "startswith (c # cs) needle" | "str_in needle cs" by auto
    then show "\<exists>ps ss. c # cs = ps @ needle @ ss"
    proof cases
      case 1
      then obtain r where "c # cs = needle @ r" by (auto simp: startswith_iff)
      then have "c # cs = [] @ needle @ r" by simp
      then show ?thesis by blast
    next
      case 2
      then obtain ps ss where "cs = ps @ needle @ ss" using Cons.IH by auto
      then have "c # cs = (c # ps) @ needle @ ss" by simp
      then show ?thesis by blast
    qed
  next
    assume "\<exists>ps ss. c # cs = ps @ needle @ ss"
    then obtain ps ss where eq: "c # cs = ps @ needle @ ss" by auto
    show "str_in needle (c # cs)"
    proof (cases ps)
      case Nil
      then have "startswith (c # cs) needle" using eq by (auto simp: startswith_iff)
      then show ?thesis by simp
    next
      case (Cons p ps')
      then have "cs = ps' @ needle @ ss" using eq by simp
      then have "str_in needle cs" using Cons.IH by auto
      then show ?thesis by simp
    qed
  qed
qed

text \<open>
  On plain components (no leading or trailing separator) \<^verbatim>\<open>os.path.join\<close> writes the
  components with a separator between them.
\<close>

lemma os_path_join_two:
  assumes "a \<noteq> []" and "last a \<noteq> CHR ''/''" and "b \<noteq> []" and "hd b \<noteq> CHR ''/''"
    and "last b \<noteq> CHR ''/''" and "c = [] \<or> hd c \<noteq> CHR ''/''"
  shows "os_path_join a [b, c] = a @ ''/'' @ b @ ''/'' @ c"
  using assms by (cases b; cases c) (auto simp: os_path_join_def join_step_def)

lemma os_path_join_one:
  assumes "a \<noteq> []" and "last a \<noteq> CHR ''/''" and "c = [] \<or> hd c \<noteq> CHR ''/''"
  shows "os_path_join a [c] = a @ ''/'' @ c"
  using assms by (cases c) (auto simp: os_path_join_def join_step_def)

subsection \<open>C1: the output path\<close>

text \<open>
  C1 (as the code has it). For every model name and training id, the path computed when a
  job is launched follows a rule of three branches, where \<open>a/b\<close> stands for
  \<^verbatim>\<open>os.path.join(a, b)\<close>: with no hint it is \<open>default/training_id/model_name\<close>; with a
  hint in which the training id occurs as a substring (anywhere, not only as a whole
  path component) it is \<open>hint/model_name\<close>; with a hint in which the training id does
  not occur as a substring it is \<open>hint/training_id/model_name\<close>.
\<close>

theorem get_model_path_rule:
  "(hint = None \<longrightarrow> get_model_path d hint name tid = os_path_join d [tid, name])
   \<and> (\<forall>h. hint = Some h \<and> (\<exists>ps ss. h = ps @ tid @ ss)
          \<longrightarrow> get_model_path d hint name tid = os_path_join h [name])
   \<and> (\<forall>h. hint = Some h \<and> \<not> (\<exists>ps ss. h = ps @ tid @ ss)
          \<longrightarrow> get_model_path d hint name tid = os_path_join h [tid, name])"
  by (simp add: get_model_path_def str_in_iff)

text \<open>The three branches at concrete inputs.\<close>

theorem get_model_path_rule_witness:
  "get_model_path ''/out'' None ''bar'' ''id1'' = ''/out/id1/bar''
   \<and> str_in ''id1'' ''/tmp/id1''
   \<and> get_model_path ''/out'' (Some ''/tmp/id1'') ''bar'' ''id1'' = ''/tmp/id1/bar''
   \<and> \<not> str_in ''id1'' ''/tmp/x''
   \<and> get_model_path ''/out'' (Some ''/tmp/x'') ''bar'' ''id1'' = ''/tmp/x/id1/bar''"
proof -
  have h2: "\<exists>ps ss. ''/tmp/id1'' = ps @ ''id1'' @ ss"
    using str_in_iff [of "''id1''" "''/tmp/id1''"] by simp
  have h3: "\<not> (\<exists>ps ss. ''/tmp/x'' = ps @ ''id1'' @ ss)"
    using str_in_iff [of "''id1''" "''/tmp/x''"] by simp
  have j: "os_path_join ''/out'' [''id1'', ''bar''] = ''/out/id1/bar''"
    "os_path_join ''/tmp/id1'' [''bar''] = ''/tmp/id1/bar''"
    "os_path_join ''/tmp/x'' [''id1'', ''bar''] = ''/tmp/x/id1/bar''"
    by (simp_all add: os_path_join_def join_step_def)
  from get_model_path_rule [where hint = None and d = "''/out''" and name = "''bar''" and tid = "''id1''"]
  have 1: "get_model_path ''/out'' None ''bar'' ''id1'' = ''/out/id1/bar''"
    using j by simp
  from get_model_path_rule [where hint = "Some ''/tmp/id1''" and d = "''/out''" and name = "''bar''" and tid = "''id1''"] h2
  have 2: "get_model_path ''/out'' (Some ''/tmp/id1'') ''bar'' ''id1'' = ''/tmp/id1/bar''"
    using j by simp
  from get_model_path_rule [where hint = "Some ''/tmp/x''" and d = "''/out''" and name = "''bar''" and tid = "''id1''"] h3
  have 3: "get_model_path ''/out'' (Some ''/tmp/x'') ''bar'' ''id1'' = ''/tmp/x/id1/bar''"
    using j by simp
  show ?thesis using 1 2 3 by simp
qed

text \<open>
  The test is for a substring: a hint whose last component merely contains the training
  id gets no sub-directory of its own, where the rule on path components would add one.
\<close>

theorem get_model_path_component_counterexample:
  "''id1'' \<notin> set (path_components ''/out/run-id1'')
   \<and> get_model_path ''/out'' (Some ''/out/run-id1'') ''bar'' ''id1'' = ''/out/run-id1/bar''
   \<and> spec_model_path ''/out'' (Some ''/out/run-id1'') ''bar'' ''id1'' = ''/out/run-id1/id1/bar''"
  by (simp add: get_model_path_def spec_model_path_def path_components_def str_split_def
      os_path_join_def join_step_def)

subsection \<open>C2: the outcome of the subprocess executor after join\<close>

text \<open>No method of the process interface writes the parent's \<^verbatim>\<open>error\<close>.\<close>

lemma error_unchanged:
  "error (set_args kw p) = error p"
  "error (snd (start p)) = error p"
  "error (snd (terminate p)) = error p"
  "error (snd (close p)) = error p"
  "error (snd (join status p)) = error p"
  by (simp_all add: set_args_def start_def terminate_def close_def join_def Let_def
      split: process_state.splits)

lemma sub_cancel_error: "error (proc (snd (sub_cancel self))) = error (proc self)"
proof -
  obtain r1 p1 where t: "terminate (proc self) = (r1, p1)"
    by (cases "terminate (proc self)")
  obtain r2 p2 where c: "close p1 = (r2, p2)"
    by (cases "close p1")
  have "error p1 = error (proc self)"
    using error_unchanged(3) [of "proc self"] t by simp
  moreover have "error p2 = error p1"
    using error_unchanged(4) [of p1] c by simp
  ultimately show ?thesis
    by (simp add: sub_cancel_def t c split: option.splits)
qed

text \<open>
  A fresh executor whose event is clear: the child is started and joined, and the parent
  classifies what it holds itself.
\<close>

lemma sub_fresh_not_cancelled:
  assumes "\<not> event self" and "popen (proc self) = NotStarted"
  shows "sub_train_and_save_model status self kw =
     (after_join ((proc self)\<lparr>proc_args := None,
                               calls := calls (proc self) @ [SetArgs, Start, Join],
                               popen := Finished status\<rparr>),
      self\<lparr>proc := (proc self)\<lparr>proc_args := None,
                                calls := calls (proc self) @ [SetArgs, Start, Join],
                                popen := Finished status\<rparr>\<rparr>)"
  using assms
  by (simp add: sub_train_and_save_model_def set_args_def start_def join_def Let_def)

lemma sub_parent_outcome:
  assumes "\<not> event self" and "popen (proc self) = NotStarted" and "error (proc self) = None"
  shows "fst (sub_train_and_save_model status self kw) =
     (if status = 137 then
        Inl (CaikitRuntimeException RESOURCE_EXHAUSTED ''Training process died with OOM error!'')
      else if status \<noteq> 0 then
        Inl (CaikitRuntimeException UNKNOWN
               (''Training process died with exit code '' @ str_int status))
      else Inr ())"
  using assms
  by (simp add: sub_fresh_not_cancelled after_join_def exitcode_def OOM_EXIT_CODE_def)

text \<open>
  As long as the parent holds no captured error, the order of the code and the order of
  the specification give the same outcome.
\<close>

lemma orders_agree: "error p = None \<Longrightarrow> after_join p = spec_after_join p"
  by (auto simp: after_join_def spec_after_join_def OOM_EXIT_CODE_def
      split: sum.splits option.splits)

text \<open>
  C2, evaluated where the code departs from it. The training of the child raises a
  \<^verbatim>\<open>CaikitRuntimeException\<close>: the child stores it in the \<^verbatim>\<open>error\<close> of its own copy of
  the process object and exits with 0; the parent's object holds no error after the
  join, and the parent's call returns instead of raising the exception again.
\<close>

theorem child_error_not_forwarded:
  "error (fst (child_process (sample_env []) (SubProcessTrainSaveExecutor_init False)
                 (sample_kwargs (Inl (CaikitRuntimeException NOT_FOUND ''no such data'')))))
     = Some (CaikitRuntimeException NOT_FOUND ''no such data'')
   \<and> snd (child_process (sample_env []) (SubProcessTrainSaveExecutor_init False)
            (sample_kwargs (Inl (CaikitRuntimeException NOT_FOUND ''no such data''))))
     = 0
   \<and> train_and_save_model (sample_env []) (SubProcess (SubProcessTrainSaveExecutor_init False))
        (sample_kwargs (Inl (CaikitRuntimeException NOT_FOUND ''no such data'')))
     = (Inr (),
        SubProcess \<lparr>event = False,
                    proc = \<lparr>calls = [SetArgs, Start, Join], proc_args = None, error = None,
                            popen = Finished 0\<rparr>\<rparr>)"
proof -
  let ?kw = "sample_kwargs (Inl (CaikitRuntimeException NOT_FOUND ''no such data''))"
  let ?x = "SubProcessTrainSaveExecutor_init False"
  have l: "fst (local_train_and_save_model (sample_env []) ?x ?kw)
      = Inl (CaikitRuntimeException NOT_FOUND ''no such data'')"
    by (simp add: local_train_and_save_model_def local_try_def sample_env_def
        sample_kwargs_def sample_module_def)
  have k: "child_killed (sample_env []) = None"
    by (simp add: sample_env_def)
  have c: "child_process (sample_env []) ?x ?kw
      = (run (Inl (CaikitRuntimeException NOT_FOUND ''no such data''))
           (set_args ?kw (proc ?x)), 0)"
    by (simp add: child_process_def k l)
  have h: "\<not> event ?x" "popen (proc ?x) = NotStarted" "error (proc ?x) = None"
    by (simp_all add: SubProcessTrainSaveExecutor_init_def new_process_def)
  have s: "sub_train_and_save_model 0 ?x ?kw
      = (Inr (), \<lparr>event = False,
                  proc = \<lparr>calls = [SetArgs, Start, Join], proc_args = None, error = None,
                          popen = Finished 0\<rparr>\<rparr>)"
    unfolding sub_fresh_not_cancelled [OF h(1) h(2)]
    by (simp add: after_join_def exitcode_def SubProcessTrainSaveExecutor_init_def
        new_process_def)
  show ?thesis
    unfolding train_and_save_model.simps c snd_conv s
    by (simp add: run_def set_args_def)
qed

subsection \<open>C4: the event is set when the subprocess executor is called\<close>

lemma sub_fresh_cancelled:
  assumes "event self" and "popen (proc self) = NotStarted"
  shows "sub_train_and_save_model status self kw =
     (Inl still_running_error,
      self\<lparr>proc := (proc self)\<lparr>proc_args := None,
                                calls := calls (proc self) @ [SetArgs, Start, Terminate, Close],
                                popen := Running\<rparr>\<rparr>)"
  using assms
  by (simp add: sub_train_and_save_model_def sub_cancel_def set_args_def start_def
      terminate_def close_def Let_def)

text \<open>
  C4 (as the code has it). When the event is already set as \<^verbatim>\<open>train_and_save_model\<close>
  is called on a fresh subprocess executor, the child process is given its arguments and
  started first; then \<^verbatim>\<open>cancel()\<close> is entered and calls \<^verbatim>\<open>terminate()\<close> on the started
  child. The call does not return, and the child is never joined, so no outcome is
  classified.
\<close>

theorem sub_cancel_after_start:
  assumes "event self" and "popen (proc self) = NotStarted"
  shows "isl (fst (sub_train_and_save_model status self kw))
     \<and> popen (proc (snd (sub_train_and_save_model status self kw))) \<noteq> NotStarted
     \<and> (\<exists>rest. calls (proc (snd (sub_train_and_save_model status self kw)))
                  = calls (proc self) @ [SetArgs, Start, Terminate] @ rest
               \<and> Join \<notin> set rest)"
  unfolding sub_fresh_cancelled [OF assms] by simp

text \<open>On a fresh executor whose event is set.\<close>

theorem sub_cancel_after_start_witness:
  "event (SubProcessTrainSaveExecutor_init True)
   \<and> popen (proc (SubProcessTrainSaveExecutor_init True)) = NotStarted
   \<and> isl (fst (sub_train_and_save_model 0 (SubProcessTrainSaveExecutor_init True)
                 (sample_kwargs (Inr (saving None)))))
   \<and> take 3 (calls (proc (snd (sub_train_and_save_model 0 (SubProcessTrainSaveExecutor_init True)
                 (sample_kwargs (Inr (saving None)))))))
       = [SetArgs, Start, Terminate]
   \<and> Join \<notin> set (calls (proc (snd (sub_train_and_save_model 0
                 (SubProcessTrainSaveExecutor_init True) (sample_kwargs (Inr (saving None)))))))"
proof -
  let ?x = "SubProcessTrainSaveExecutor_init True"
  let ?R = "sub_train_and_save_model 0 ?x (sample_kwargs (Inr (saving None)))"
  have h: "event ?x" "popen (proc ?x) = NotStarted"
    by (simp_all add: SubProcessTrainSaveExecutor_init_def new_process_def)
  have e: "calls (proc ?x) = []"
    by (simp add: SubProcessTrainSaveExecutor_init_def new_process_def)
  from sub_cancel_after_start [OF h, of 0 "sample_kwargs (Inr (saving None))"]
  obtain rest where i: "isl (fst ?R)"
    and c: "calls (proc (snd ?R)) = [SetArgs, Start, Terminate] @ rest"
    and j: "Join \<notin> set rest"
    unfolding e by auto
  have "take 3 (calls (proc (snd ?R))) = [SetArgs, Start, Terminate]"
    unfolding c by simp
  moreover have "Join \<notin> set (calls (proc (snd ?R)))"
    unfolding c using j by simp
  ultimately show ?thesis
    using h i by blast
qed

text \<open>
  The child is started although the event is set: \<^verbatim>\<open>start\<close> is among the calls made
  on the process, in front of \<^verbatim>\<open>terminate\<close>, and the child is running.
\<close>

theorem started_before_cancel_counterexample:
  "event (SubProcessTrainSaveExecutor_init True)
   \<and> calls (proc (snd (sub_train_and_save_model 0 (SubProcessTrainSaveExecutor_init True)
            (sample_kwargs (Inr (saving None))))))
       = [SetArgs, Start, Terminate, Close]
   \<and> popen (proc (snd (sub_train_and_save_model 0 (SubProcessTrainSaveExecutor_init True)
            (sample_kwargs (Inr (saving None))))))
       = Running"
  by (simp add: sub_train_and_save_model_def sub_cancel_def SubProcessTrainSaveExecutor_init_def
      new_process_def set_args_def start_def terminate_def close_def Let_def)

subsection \<open>C5: cancelling the subprocess executor\<close>

text \<open>What \<^verbatim>\<open>cancel()\<close> raises, by where the child is.\<close>

lemma sub_cancel_by_state:
  "fst (sub_cancel self) =
     (case popen (proc self) of
        NotStarted \<Rightarrow> Inl no_terminate_error
      | Running \<Rightarrow> Inl still_running_error
      | Finished c \<Rightarrow> Inl (CaikitRuntimeException CANCELLED ''Training request terminated'')
      | Closed \<Rightarrow> Inl closed_error)"
  by (simp add: sub_cancel_def terminate_def close_def Let_def split: process_state.splits)

text \<open>
  On a child that has already exited, \<^verbatim>\<open>cancel()\<close> releases the process and raises
  CANCELLED.
\<close>

lemma sub_cancel_finished:
  assumes "popen (proc self) = Finished c"
  shows "sub_cancel self =
     (Inl (CaikitRuntimeException CANCELLED ''Training request terminated''),
      self\<lparr>proc := (proc self)\<lparr>calls := calls (proc self) @ [Terminate, Close],
                                popen := Closed\<rparr>\<rparr>)"
  using assms by (simp add: sub_cancel_def terminate_def close_def Let_def)

text \<open>
  C5, evaluated where the code departs from it. \<^verbatim>\<open>cancel()\<close> on an executor whose child
  is running (it was started and is training): \<^verbatim>\<open>terminate()\<close> returns, \<^verbatim>\<open>close()\<close>
  raises the \<^verbatim>\<open>ValueError\<close> of a process that is still running, so the method is left
  with that error in front of the raise of CANCELLED, and the process is not released.
\<close>

theorem sub_cancel_running_child:
  "sub_cancel \<lparr>event = True,
       proc = \<lparr>calls = [SetArgs, Start], proc_args = None, error = None, popen = Running\<rparr>\<rparr>
     = (Inl (PyException ValueError
              (''Cannot close a process while it is still running. ''
               @ ''You should first call join() or terminate().'')),
        \<lparr>event = True,
         proc = \<lparr>calls = [SetArgs, Start, Terminate, Close], proc_args = None,
                 error = None, popen = Running\<rparr>\<rparr>)"
  by (simp add: sub_cancel_def terminate_def close_def still_running_error_def Let_def)

subsection \<open>C6: cancelling the local executor\<close>

text \<open>
  C6 (as the code has it). A call of the local executor's \<^verbatim>\<open>cancel()\<close> does nothing:
  the event is set after the call exactly when it was set before it.
\<close>

theorem local_cancel_leaves_event:
  "event (local_cancel self) = event self"
  by (simp add: local_cancel_def)

text \<open>After \<^verbatim>\<open>cancel()\<close> on a local executor whose event is clear, the event is clear.\<close>

theorem local_cancel_counterexample:
  "\<not> event (local_cancel \<lparr>event = False\<rparr>)"
  by (simp add: local_cancel_def)

subsection \<open>The sample inputs, evaluated\<close>

lemma sample_desc_name:
  "str_remove ''TrainRequest'' (DESCRIPTOR_name sample_request) = ''ModulesSampleTaskSampleModule''"
  by (simp add: sample_request_def str_remove.simps)

lemma sample_re_split:
  "re_split ''ModulesSampleTaskSampleModule'' = [''Modules'', ''Sample'', ''Task'', ''Sample'', ''Module'']"
  by (simp add: re_split_def ascii_uppercase_def)

lemma sample_env_fields:
  "import_getattr (sample_env reg) = (\<lambda>path name. Inl (PyException OtherException ''No module named sample_lib''))"
  "MODULE_REGISTRY (sample_env reg) = reg"
  "snake_to_upper_camel (sample_env reg) ''modules_sample_task_SampleModule'' = ''ModulesSampleTaskSampleModule''"
  "build_caikit_library_request_dict (sample_env reg) = (\<lambda>r m. Inr (req_fields r))"
  "DestroyableThread (sample_env reg) = (\<lambda>ev f kw. (f kw, ev))"
  "child_killed (sample_env reg) = None"
  "load_model (sample_env reg) = (\<lambda>name path kind. None)"
  "retrieve_model (sample_env reg) = (\<lambda>name. Inr name)"
  by (simp_all add: sample_env_def)

lemma failing_mapper_env_fields:
  "import_getattr (failing_mapper_env reg e) = import_getattr (sample_env reg)"
  "MODULE_REGISTRY (failing_mapper_env reg e) = reg"
  "snake_to_upper_camel (failing_mapper_env reg e) = snake_to_upper_camel (sample_env reg)"
  "build_caikit_library_request_dict (failing_mapper_env reg e) = (\<lambda>r m. Inl e)"
  by (simp_all add: failing_mapper_env_def sample_env_def)

lemma sample_primary:
  "primary_strategy (sample_env reg) lib ''ModulesSampleTaskSampleModule''
     = Inl (PyException OtherException ''No module named sample_lib'')"
  "primary_strategy (failing_mapper_env reg e) lib ''ModulesSampleTaskSampleModule''
     = Inl (PyException OtherException ''No module named sample_lib'')"
  by (simp_all add: primary_strategy_def sample_re_split sample_env_fields failing_mapper_env_fields)

lemma sample_fallback:
  "fallback_strategy (snake_to_upper_camel (sample_env reg))
      ''ModulesSampleTaskSampleModule'' [sample_module r] = Inr (Some (sample_module r))"
  by (simp add: sample_env_fields sample_module_def str_split_def)

lemma sample_fallback_short:
  "fallback_strategy camel d [short_module]
     = Inl (PyException IndexError ''list index out of range'')"
  by (simp add: str_split_def short_module_def)

lemma sample_resolve:
  "resolve_model (sample_env []) lib ''ModulesSampleTaskSampleModule'' = Inr None"
  "resolve_model (sample_env [short_module]) lib ''ModulesSampleTaskSampleModule''
     = Inl (PyException IndexError ''list index out of range'')"
  "resolve_model (sample_env [sample_module r]) lib ''ModulesSampleTaskSampleModule''
     = Inr (Some (sample_module r))"
  "resolve_model (failing_mapper_env [sample_module r] e) lib ''ModulesSampleTaskSampleModule''
     = Inr (Some (sample_module r))"
  by (simp_all add: resolve_model_def sample_primary sample_fallback sample_fallback_short
      sample_env_fields failing_mapper_env_fields del: fallback_strategy.simps(2))



text \<open>A mapper that raises ends \<^verbatim>\<open>run_training_job\<close> before anything is submitted.\<close>

lemma run_training_job_mapper_raises:
  assumes "build_caikit_library_request_dict ev_env req model = Inl e"
  shows "run_training_job ev_env s req model tid hint ctx wait = (Inl e, s, ctx)"
  using assms by (simp add: run_training_job_def)

text \<open>The three ways through the \<^verbatim>\<open>try\<close> block of \<^verbatim>\<open>Train\<close>.\<close>

lemma Train_try_cases:
  "resolve_model ev_env (library s) (str_remove ''TrainRequest'' (DESCRIPTOR_name req)) = Inl e
    \<Longrightarrow> Train_try ev_env s req ctx tid = (Inl e, s, ctx)"
  "resolve_model ev_env (library s) (str_remove ''TrainRequest'' (DESCRIPTOR_name req)) = Inr None
    \<Longrightarrow> Train_try ev_env s req ctx tid =
      (Inl (CaikitRuntimeException INTERNAL
              ''Global Train not able to parse module for this Train Request''), s, ctx)"
  "resolve_model ev_env (library s) (str_remove ''TrainRequest'' (DESCRIPTOR_name req))
      = Inr (Some model)
    \<Longrightarrow> Train_try ev_env s req ctx tid =
      run_training_job ev_env s req model tid (Some (training_output_dir s)) ctx False"
  unfolding Train_try_def Let_def by simp_all

lemma sample_Train_try1:
  "Train_try (sample_env []) sample_servicer sample_request sample_ctx tid
     = (Inl (CaikitRuntimeException INTERNAL
          ''Global Train not able to parse module for this Train Request''),
        sample_servicer, sample_ctx)"
  by (rule Train_try_cases(2)) (simp only: sample_desc_name sample_resolve)

lemma sample_Train_try2:
  "Train_try (sample_env [short_module]) sample_servicer sample_request sample_ctx tid
     = (Inl (PyException IndexError ''list index out of range''), sample_servicer, sample_ctx)"
  by (rule Train_try_cases(1)) (simp only: sample_desc_name sample_resolve)

lemma sample_Train_try3:
  "Train_try (failing_mapper_env [sample_module r] e) sample_servicer sample_request sample_ctx tid
     = (Inl e, sample_servicer, sample_ctx)"
proof -
  have "Train_try (failing_mapper_env [sample_module r] e) sample_servicer sample_request
          sample_ctx tid
      = run_training_job (failing_mapper_env [sample_module r] e) sample_servicer sample_request
          (sample_module r) tid (Some (training_output_dir sample_servicer)) sample_ctx False"
    by (rule Train_try_cases(3)) (simp only: sample_desc_name sample_resolve)
  also have "\<dots> = (Inl e, sample_servicer, sample_ctx)"
    by (rule run_training_job_mapper_raises) (simp only: failing_mapper_env_fields)
  finally show ?thesis .
qed


subsection \<open>C3: the error policy of Train\<close>

text \<open>
  C3 (as the code has it). For a failure that escapes the body of \<^verbatim>\<open>Train\<close>: a
  \<^verbatim>\<open>CaikitRuntimeException\<close> propagates unchanged; a failure of class \<^verbatim>\<open>TypeError\<close> or
  \<^verbatim>\<open>ValueError\<close> is raised again as INVALID\_ARGUMENT, with the original text in the
  message; and any other failure that is not a \<^verbatim>\<open>CancelledError\<close> is raised again as
  INTERNAL with the message "Unhandled exception during training". What happens to a
  \<^verbatim>\<open>CancelledError\<close> is not part of the statement.
\<close>

theorem Train_error_policy:
  assumes "fst (Train_try ev_env s req ctx tid) = Inl e"
  shows "(is_caikit e \<longrightarrow> fst (Train ev_env s req ctx tid) = Inl e)
   \<and> (\<forall>m. e = PyException TypeError m \<or> e = PyException ValueError m \<longrightarrow>
          fst (Train ev_env s req ctx tid) =
            Inl (CaikitRuntimeException INVALID_ARGUMENT
              (''Exception raised during inference. This may be a problem with your input: '' @ m)))
   \<and> (\<forall>k m. e = PyException k m \<and> k \<noteq> TypeError \<and> k \<noteq> ValueError \<and> k \<noteq> CancelledError \<longrightarrow>
          fst (Train ev_env s req ctx tid) =
            Inl (CaikitRuntimeException INTERNAL ''Unhandled exception during training''))"
proof -
  obtain s' ctx' where t: "Train_try ev_env s req ctx tid = (Inl e, s', ctx')"
    using assms by (cases "Train_try ev_env s req ctx tid") auto
  have r: "fst (Train ev_env s req ctx tid) = Inl (Train_except e)"
    by (simp add: Train_def t)
  show ?thesis
    unfolding r by (cases e) auto
qed

text \<open>
  One request for each branch: a request whose module is not found (the body raises the
  runtime's own exception), a mapper that raises a \<^verbatim>\<open>ValueError\<close>, and a registry
  entry that makes the scan raise an \<^verbatim>\<open>IndexError\<close>.
\<close>

theorem Train_error_policy_witness:
  "fst (Train_try (sample_env []) sample_servicer sample_request sample_ctx ''id1'')
     = Inl (CaikitRuntimeException INTERNAL
         ''Global Train not able to parse module for this Train Request'')
   \<and> fst (Train (sample_env []) sample_servicer sample_request sample_ctx ''id1'')
     = Inl (CaikitRuntimeException INTERNAL
         ''Global Train not able to parse module for this Train Request'')
   \<and> fst (Train_try
        (failing_mapper_env [sample_module (Inr (saving None))] (PyException ValueError ''bad param''))
        sample_servicer sample_request sample_ctx ''id1'')
     = Inl (PyException ValueError ''bad param'')
   \<and> fst (Train
        (failing_mapper_env [sample_module (Inr (saving None))] (PyException ValueError ''bad param''))
        sample_servicer sample_request sample_ctx ''id1'')
     = Inl (CaikitRuntimeException INVALID_ARGUMENT
         ''Exception raised during inference. This may be a problem with your input: bad param'')
   \<and> fst (Train_try (sample_env [short_module]) sample_servicer sample_request sample_ctx ''id1'')
     = Inl (PyException IndexError ''list index out of range'')
   \<and> fst (Train (sample_env [short_module]) sample_servicer sample_request sample_ctx ''id1'')
     = Inl (CaikitRuntimeException INTERNAL ''Unhandled exception during training'')"
proof -
  have h1: "fst (Train_try (sample_env []) sample_servicer sample_request sample_ctx ''id1'')
     = Inl (CaikitRuntimeException INTERNAL
         ''Global Train not able to parse module for this Train Request'')"
    by (simp add: sample_Train_try1 sample_Train_try2 sample_Train_try3)
  have h2: "fst (Train_try
        (failing_mapper_env [sample_module (Inr (saving None))] (PyException ValueError ''bad param''))
        sample_servicer sample_request sample_ctx ''id1'')
     = Inl (PyException ValueError ''bad param'')"
    by (simp add: sample_Train_try1 sample_Train_try2 sample_Train_try3)
  have h3: "fst (Train_try (sample_env [short_module]) sample_servicer sample_request
        sample_ctx ''id1'')
     = Inl (PyException IndexError ''list index out of range'')"
    by (simp add: sample_Train_try1 sample_Train_try2 sample_Train_try3)
  show ?thesis
    using h1 h2 h3 Train_error_policy [OF h1] Train_error_policy [OF h2]
      Train_error_policy [OF h3]
    by simp
qed

text \<open>
  A \<^verbatim>\<open>CancelledError\<close> is not turned into INTERNAL: its own \<^verbatim>\<open>except\<close> clause is
  entered and raises an \<^verbatim>\<open>AttributeError\<close>, which leaves \<^verbatim>\<open>Train\<close> as it is.
\<close>

theorem Train_cancelled_counterexample:
  "fst (Train_try
        (failing_mapper_env [sample_module (Inr (saving None))] (PyException CancelledError []))
        sample_servicer sample_request sample_ctx ''id1'')
     = Inl (PyException CancelledError [])
   \<and> fst (Train
        (failing_mapper_env [sample_module (Inr (saving None))] (PyException CancelledError []))
        sample_servicer sample_request sample_ctx ''id1'')
     = Inl (PyException AttributeError no_attribute_message)"
  by (simp add: Train_def sample_Train_try1 sample_Train_try2 sample_Train_try3)

subsection \<open>C7: a request whose module cannot be resolved\<close>

text \<open>The only exception the scan of the registry raises is the \<^verbatim>\<open>IndexError\<close>.\<close>

lemma fallback_strategy_raises:
  "fallback_strategy camel d ms = Inl e \<Longrightarrow> e = PyException IndexError ''list index out of range''"
  by (induction ms) (auto simp: Let_def split: if_splits)

text \<open>
  C7 (as the code has it). For every request whose declared type is resolved neither by
  the first strategy (the import raises) nor by the scan of the registry (it yields no
  module), \<^verbatim>\<open>Train\<close> raises an INTERNAL error and launches nothing; when the scan ends
  without a match the message is "Global Train not able to parse module for this Train
  Request".
\<close>

theorem Train_unresolved:
  assumes "primary_strategy ev_env (library s)
             (str_remove ''TrainRequest'' (DESCRIPTOR_name req)) = Inl e1"
    and "\<forall>m. fallback_strategy (snake_to_upper_camel ev_env)
             (str_remove ''TrainRequest'' (DESCRIPTOR_name req)) (MODULE_REGISTRY ev_env)
           \<noteq> Inr (Some m)"
  shows "\<exists>msg. Train ev_env s req ctx tid = (Inl (CaikitRuntimeException INTERNAL msg), s, ctx)
     \<and> (fallback_strategy (snake_to_upper_camel ev_env)
             (str_remove ''TrainRequest'' (DESCRIPTOR_name req)) (MODULE_REGISTRY ev_env)
           = Inr None
         \<longrightarrow> msg = ''Global Train not able to parse module for this Train Request'')"
proof -
  let ?d = "str_remove ''TrainRequest'' (DESCRIPTOR_name req)"
  let ?f = "fallback_strategy (snake_to_upper_camel ev_env) ?d (MODULE_REGISTRY ev_env)"
  have res: "resolve_model ev_env (library s) ?d = ?f"
    using assms(1) by (simp add: resolve_model_def)
  show ?thesis
  proof (cases ?f)
    case (Inl e)
    then have e: "e = PyException IndexError ''list index out of range''"
      by (rule fallback_strategy_raises)
    have "Train_try ev_env s req ctx tid = (Inl e, s, ctx)"
      using res Inl by (simp only: Train_try_cases(1))
    then have "Train ev_env s req ctx tid =
        (Inl (CaikitRuntimeException INTERNAL ''Unhandled exception during training''), s, ctx)"
      using e by (simp add: Train_def)
    then show ?thesis using Inl by simp
  next
    case (Inr r)
    then have n: "?f = Inr None"
      using assms(2) by (cases r) auto
    have "Train_try ev_env s req ctx tid =
        (Inl (CaikitRuntimeException INTERNAL
           ''Global Train not able to parse module for this Train Request''), s, ctx)"
      using res n by (simp only: Train_try_cases(2))
    then have "Train ev_env s req ctx tid =
        (Inl (CaikitRuntimeException INTERNAL
           ''Global Train not able to parse module for this Train Request''), s, ctx)"
      by (simp add: Train_def)
    then show ?thesis by simp
  qed
qed

text \<open>A request for a module that is neither importable nor registered.\<close>

theorem Train_unresolved_witness:
  "primary_strategy (sample_env []) (library sample_servicer)
       (str_remove ''TrainRequest'' (DESCRIPTOR_name sample_request))
     = Inl (PyException OtherException ''No module named sample_lib'')
   \<and> fallback_strategy (snake_to_upper_camel (sample_env []))
       (str_remove ''TrainRequest'' (DESCRIPTOR_name sample_request))
       (MODULE_REGISTRY (sample_env [])) = Inr None
   \<and> Train (sample_env []) sample_servicer sample_request sample_ctx ''id1''
     = (Inl (CaikitRuntimeException INTERNAL
          ''Global Train not able to parse module for this Train Request''),
        sample_servicer, sample_ctx)"
proof -
  have h1: "primary_strategy (sample_env []) (library sample_servicer)
       (str_remove ''TrainRequest'' (DESCRIPTOR_name sample_request))
     = Inl (PyException OtherException ''No module named sample_lib'')"
    by (simp add: sample_desc_name sample_primary)
  have f: "fallback_strategy (snake_to_upper_camel (sample_env []))
       (str_remove ''TrainRequest'' (DESCRIPTOR_name sample_request))
       (MODULE_REGISTRY (sample_env [])) = Inr None"
    by (simp add: sample_env_fields)
  have h2: "\<forall>m. fallback_strategy (snake_to_upper_camel (sample_env []))
       (str_remove ''TrainRequest'' (DESCRIPTOR_name sample_request))
       (MODULE_REGISTRY (sample_env [])) \<noteq> Inr (Some m)"
    unfolding f by simp
  from Train_unresolved [OF h1 h2, of sample_ctx "''id1''"] f
  have "Train (sample_env []) sample_servicer sample_request sample_ctx ''id1''
     = (Inl (CaikitRuntimeException INTERNAL
          ''Global Train not able to parse module for this Train Request''),
        sample_servicer, sample_ctx)"
    by auto
  then show ?thesis using h1 f by simp
qed

text \<open>The message of the error is the one of the code, not "module not resolvable".\<close>

theorem Train_unresolved_message_counterexample:
  "fst (Train (sample_env []) sample_servicer sample_request sample_ctx ''id1'')
     = Inl (CaikitRuntimeException INTERNAL
         ''Global Train not able to parse module for this Train Request'')
   \<and> fst (Train (sample_env []) sample_servicer sample_request sample_ctx ''id1'')
     \<noteq> Inl (CaikitRuntimeException INTERNAL ''module not resolvable'')"
  by (simp add: Train_def sample_Train_try1 sample_Train_try2 sample_Train_try3)

subsection \<open>C8: failures inside the local executor\<close>

text \<open>
  C8. For every failure inside the local executor's \<^verbatim>\<open>train_and_save_model\<close> (raised
  by the training on the worker thread or by \<^verbatim>\<open>save\<close>): a \<^verbatim>\<open>CaikitRuntimeException\<close>
  passes through unchanged; an error of class \<^verbatim>\<open>TypeError\<close> or \<^verbatim>\<open>ValueError\<close> raises
  INVALID\_ARGUMENT with the original text at the end of the message; any other exception
  raises INTERNAL.
\<close>

theorem local_failure_classification:
  assumes "fst (local_try ev_env (event self) kw) = Inl e"
  shows "(is_caikit e \<longrightarrow> fst (local_train_and_save_model ev_env self kw) = Inl e)
   \<and> (\<forall>m. e = PyException TypeError m \<or> e = PyException ValueError m \<longrightarrow>
          fst (local_train_and_save_model ev_env self kw) =
            Inl (CaikitRuntimeException INVALID_ARGUMENT
              (''Exception raised during training. This may be a problem with your input: '' @ m)))
   \<and> (\<forall>k m. e = PyException k m \<and> k \<noteq> TypeError \<and> k \<noteq> ValueError \<longrightarrow>
          fst (local_train_and_save_model ev_env self kw) =
            Inl (CaikitRuntimeException INTERNAL (''Exception raised during training: '' @ m)))"
proof -
  obtain ev' where t: "local_try ev_env (event self) kw = (Inl e, ev')"
    using assms by (cases "local_try ev_env (event self) kw") auto
  have r: "fst (local_train_and_save_model ev_env self kw) = Inl (local_except e)"
    by (simp add: local_train_and_save_model_def t)
  show ?thesis
    unfolding r by (cases e) auto
qed

text \<open>The \<^verbatim>\<open>try\<close> block on the sample inputs.\<close>

lemma sample_local_try:
  "local_try (sample_env reg) ev (sample_kwargs (Inl e)) = (Inl e, ev)"
  "local_try (sample_env reg) ev (sample_kwargs (Inr (saving (Some e)))) = (Inl e, ev)"
  "local_try (sample_env reg) ev (sample_kwargs (Inr (saving None))) = (Inr (), ev)"
  by (simp_all add: local_try_def sample_env_fields sample_kwargs_def sample_module_def
      saving_def)

text \<open>
  A training that raises the runtime's own exception, a training that raises a
  \<^verbatim>\<open>ValueError\<close>, and a \<^verbatim>\<open>save\<close> that raises some other exception.
\<close>

theorem local_failure_classification_witness:
  "fst (local_try (sample_env []) (event \<lparr>event = False\<rparr>)
          (sample_kwargs (Inl (CaikitRuntimeException NOT_FOUND ''no such data''))))
     = Inl (CaikitRuntimeException NOT_FOUND ''no such data'')
   \<and> fst (local_train_and_save_model (sample_env []) \<lparr>event = False\<rparr>
          (sample_kwargs (Inl (CaikitRuntimeException NOT_FOUND ''no such data''))))
     = Inl (CaikitRuntimeException NOT_FOUND ''no such data'')
   \<and> fst (local_try (sample_env []) (event \<lparr>event = False\<rparr>)
          (sample_kwargs (Inl (PyException ValueError ''bad param''))))
     = Inl (PyException ValueError ''bad param'')
   \<and> fst (local_train_and_save_model (sample_env []) \<lparr>event = False\<rparr>
          (sample_kwargs (Inl (PyException ValueError ''bad param''))))
     = Inl (CaikitRuntimeException INVALID_ARGUMENT
         ''Exception raised during training. This may be a problem with your input: bad param'')
   \<and> fst (local_try (sample_env []) (event \<lparr>event = False\<rparr>)
          (sample_kwargs (Inr (saving (Some (PyException OtherException ''disk full''))))))
     = Inl (PyException OtherException ''disk full'')
   \<and> fst (local_train_and_save_model (sample_env []) \<lparr>event = False\<rparr>
          (sample_kwargs (Inr (saving (Some (PyException OtherException ''disk full''))))))
     = Inl (CaikitRuntimeException INTERNAL ''Exception raised during training: disk full'')"
proof -
  let ?x = "\<lparr>event = False\<rparr>"
  have h1: "fst (local_try (sample_env []) (event ?x)
          (sample_kwargs (Inl (CaikitRuntimeException NOT_FOUND ''no such data''))))
     = Inl (CaikitRuntimeException NOT_FOUND ''no such data'')"
    by (simp add: sample_local_try)
  have h2: "fst (local_try (sample_env []) (event ?x)
          (sample_kwargs (Inl (PyException ValueError ''bad param''))))
     = Inl (PyException ValueError ''bad param'')"
    by (simp add: sample_local_try)
  have h3: "fst (local_try (sample_env []) (event ?x)
          (sample_kwargs (Inr (saving (Some (PyException OtherException ''disk full''))))))
     = Inl (PyException OtherException ''disk full'')"
    by (simp add: sample_local_try)
  show ?thesis
    using h1 h2 h3 local_failure_classification [OF h1] local_failure_classification [OF h2]
      local_failure_classification [OF h3]
    by simp
qed

subsection \<open>C9: loading the trained model\<close>

lemma load_calls_append: "load_calls (xs @ ys) = load_calls xs + load_calls ys"
  by (simp add: load_calls_def)



text \<open>The jobs of the sample inputs.\<close>

lemma sample_tas:
  "train_and_save_model (sample_env reg) (Local \<lparr>event = False\<rparr>)
      (sample_kwargs (Inr (saving None))) = (Inr (), Local \<lparr>event = False\<rparr>)"
  "train_and_save_model (sample_env reg) (Local \<lparr>event = False\<rparr>) (sample_kwargs (Inl e))
     = (Inl (local_except e), Local \<lparr>event = False\<rparr>)"
  by (simp_all add: local_train_and_save_model_def sample_local_try)

lemma failing_load_tas:
  "train_and_save_model (failing_load_env e) (Local \<lparr>event = False\<rparr>)
      (sample_kwargs (Inr (saving None))) = (Inr (), Local \<lparr>event = False\<rparr>)"
  by (simp add: local_train_and_save_model_def local_try_def failing_load_env_def
      sample_env_def sample_kwargs_def sample_module_def saving_def)

lemma failing_load_env_fields:
  "load_model (failing_load_env e) = (\<lambda>name path kind. Some e)"
  by (simp add: failing_load_env_def)

lemma sample_run_async:
  "run_async (sample_env []) sample_servicer (Local \<lparr>event = False\<rparr>)
      (sample_kwargs (Inr (saving None))) ''bar'' ''/out/id1/bar''
     = (\<lparr>fut_result = Inr (RetrievedModel ''bar'')\<rparr>,
        sample_servicer\<lparr>model_manager :=
          [LoadModel ''bar'' ''/out/id1/bar'' ''standalone'', RetrieveModel ''bar'']\<rparr>)"
  "run_async (sample_env []) sample_servicer (Local \<lparr>event = False\<rparr>)
      (sample_kwargs (Inl (PyException OtherException ''boom''))) ''bar'' ''/out/id1/bar''
     = (\<lparr>fut_result = Inl (CaikitRuntimeException INTERNAL
                                ''Exception raised during training: boom'')\<rparr>,
        sample_servicer\<lparr>model_manager := []\<rparr>)"
  "run_async (sample_env []) (sample_servicer\<lparr>auto_load_trained_model := False\<rparr>)
      (Local \<lparr>event = False\<rparr>) (sample_kwargs (Inr (saving None))) ''bar'' ''/out/id1/bar''
     = (\<lparr>fut_result = Inr PyNone\<rparr>,
        sample_servicer\<lparr>auto_load_trained_model := False, model_manager := []\<rparr>)"
  "run_async (failing_load_env (PyException OtherException ''cannot load'')) sample_servicer
      (Local \<lparr>event = False\<rparr>) (sample_kwargs (Inr (saving None))) ''bar'' ''/out/id1/bar''
     = (\<lparr>fut_result = Inl (PyException OtherException ''cannot load'')\<rparr>,
        sample_servicer\<lparr>model_manager := [LoadModel ''bar'' ''/out/id1/bar'' ''standalone'']\<rparr>)"
  by (simp_all add: run_async_def job_target_def sample_tas failing_load_tas
      load_trained_model_def sample_env_fields failing_load_env_fields sample_servicer_def
      del: train_and_save_model.simps)


subsection \<open>C10: the registry keeps the entry of a failed job\<close>

text \<open>Submitting a job does not touch the registry.\<close>

lemma training_map_run_async:
  "training_map (snd (run_async ev_env s ex kw name path)) = training_map s"
  by (simp add: run_async_def split: prod.splits)

text \<open>
  C10 (as the code has it). In every call of \<^verbatim>\<open>run_training_job\<close> in which the request
  mapper returns, so that the job is submitted, the handle of the submitted job is put
  into the registry under the training id in front of the optional wait, and no path
  takes it out again: also when \<^verbatim>\<open>wait\<close> is true and the training fails, so that the
  caller gets the error of the job and no \<^verbatim>\<open>TrainingJob\<close>, the registry returned holds
  that handle under the training id and every other entry as before. A call whose mapper
  raises ends in front of the submission and leaves the servicer as it was.
\<close>

theorem registry_keeps_entry:
  assumes "run_training_job ev_env s req model tid hint ctx wait = (r, s', ctx')"
  shows "(\<forall>e. build_caikit_library_request_dict ev_env req model = Inl e
            \<longrightarrow> r = Inl e \<and> s' = s)
     \<and> (\<forall>d. build_caikit_library_request_dict ev_env req model = Inr d \<longrightarrow>
          (let path = get_model_path (training_output_dir s) hint (req_model_name req) tid;
               fut = fst (run_async ev_env s
                       (if use_subprocess s
                        then SubProcess (SubProcessTrainSaveExecutor_init False)
                        else Local \<lparr>event = False\<rparr>)
                       \<lparr>module_class = model, model_path = path, train_args = d\<rparr>
                       (req_model_name req) path)
           in training_map s' = (training_map s)(tid \<mapsto> fut)
              \<and> (wait \<longrightarrow>
                   (case fut_result fut of
                      Inl e \<Rightarrow> r = Inl e
                    | Inr v \<Rightarrow>
                        r = Inr \<lparr>job_model_name = req_model_name req, job_training_id = tid\<rparr>))
              \<and> (\<not> wait \<longrightarrow>
                   r = Inr \<lparr>job_model_name = req_model_name req, job_training_id = tid\<rparr>)))"
  using assms
  by (auto simp: run_training_job_def Let_def training_map_run_async
      split: if_splits sum.splits)

text \<open>A job whose training fails, launched on the sample servicer with \<^verbatim>\<open>wait=True\<close>.\<close>

lemma sample_servicer_fields:
  "training_output_dir sample_servicer = ''/out''"
  "auto_load_trained_model sample_servicer = True"
  "use_subprocess sample_servicer = False"
  "library sample_servicer = ''sample_lib''"
  "training_map sample_servicer = Map.empty"
  "model_manager sample_servicer = []"
  by (simp_all add: sample_servicer_def)

lemma sample_request_fields:
  "req_model_name sample_request = ''bar''"
  "req_fields sample_request = [(''batch_size'', ''42'')]"
  by (simp_all add: sample_request_def)

lemma sample_path: "get_model_path ''/out'' None ''bar'' ''id1'' = ''/out/id1/bar''"
  by (simp add: get_model_path_def os_path_join_def join_step_def)

lemma sample_run_training_job:
  "run_training_job (sample_env []) sample_servicer sample_request
      (sample_module (Inl (PyException OtherException ''boom''))) ''id1'' None sample_ctx True
     = (Inl (CaikitRuntimeException INTERNAL ''Exception raised during training: boom''),
        sample_servicer
          \<lparr>model_manager := [],
           training_map :=
             [''id1'' \<mapsto> \<lparr>fut_result = Inl (CaikitRuntimeException INTERNAL
                                        ''Exception raised during training: boom'')\<rparr>]\<rparr>,
        sample_ctx\<lparr>callbacks := callbacks sample_ctx @ [''id1'']\<rparr>)"
proof -
  have kw: "\<lparr>module_class = sample_module (Inl (PyException OtherException ''boom'')),
             model_path = ''/out/id1/bar'', train_args = [(''batch_size'', ''42'')]\<rparr>
      = sample_kwargs (Inl (PyException OtherException ''boom''))"
    by (simp add: sample_kwargs_def)
  show ?thesis
    unfolding run_training_job_def Let_def sample_env_fields sample_request_fields
      sample_servicer_fields sample_path
    by (simp add: kw sample_run_async(2) sample_servicer_fields)
qed

text \<open>
  The training of the submitted job fails; the caller gets its INTERNAL error, and the
  registry, which had no entry for the training id, holds the handle of that job.
\<close>

theorem registry_keeps_entry_witness:
  "build_caikit_library_request_dict (sample_env []) sample_request
       (sample_module (Inl (PyException OtherException ''boom'')))
     = Inr [(''batch_size'', ''42'')]
   \<and> fut_result (fst (run_async (sample_env []) sample_servicer (Local \<lparr>event = False\<rparr>)
        (sample_kwargs (Inl (PyException OtherException ''boom''))) ''bar'' ''/out/id1/bar''))
     = Inl (CaikitRuntimeException INTERNAL ''Exception raised during training: boom'')
   \<and> fst (run_training_job (sample_env []) sample_servicer sample_request
        (sample_module (Inl (PyException OtherException ''boom''))) ''id1'' None sample_ctx True)
     = Inl (CaikitRuntimeException INTERNAL ''Exception raised during training: boom'')
   \<and> training_map sample_servicer ''id1'' = None
   \<and> training_map (fst (snd (run_training_job (sample_env []) sample_servicer sample_request
        (sample_module (Inl (PyException OtherException ''boom''))) ''id1'' None sample_ctx True)))
        ''id1''
     = Some (fst (run_async (sample_env []) sample_servicer (Local \<lparr>event = False\<rparr>)
        (sample_kwargs (Inl (PyException OtherException ''boom''))) ''bar'' ''/out/id1/bar''))"
proof -
  let ?m = "sample_module (Inl (PyException OtherException ''boom''))"
  let ?X = "run_training_job (sample_env []) sample_servicer sample_request ?m ''id1'' None
              sample_ctx True"
  let ?F = "fst (run_async (sample_env []) sample_servicer (Local \<lparr>event = False\<rparr>)
        (sample_kwargs (Inl (PyException OtherException ''boom''))) ''bar'' ''/out/id1/bar'')"
  have h1: "build_caikit_library_request_dict (sample_env []) sample_request ?m
     = Inr [(''batch_size'', ''42'')]"
    by (simp add: sample_env_fields sample_request_fields)
  have h2: "?X = (fst ?X, fst (snd ?X), snd (snd ?X))"
    by simp
  have f: "fut_result ?F
      = Inl (CaikitRuntimeException INTERNAL ''Exception raised during training: boom'')"
    by (simp add: sample_run_async(2))
  from registry_keeps_entry [OF h2] h1
  have t: "training_map (fst (snd ?X)) = (training_map sample_servicer)(''id1'' \<mapsto> ?F)
      \<and> (case fut_result ?F of Inl e \<Rightarrow> fst ?X = Inl e
          | Inr v \<Rightarrow> fst ?X = Inr \<lparr>job_model_name = req_model_name sample_request,
                                       job_training_id = ''id1''\<rparr>)"
    unfolding Let_def sample_servicer_fields sample_request_fields sample_path
    by (simp add: sample_kwargs_def)
  have r: "fst ?X
      = Inl (CaikitRuntimeException INTERNAL ''Exception raised during training: boom'')"
    using t unfolding f by simp
  have m: "training_map (fst (snd ?X)) ''id1'' = Some ?F"
    using t by simp
  have n: "training_map sample_servicer ''id1'' = None"
    by (simp add: sample_servicer_fields)
  show ?thesis
    by (intro conjI h1 f r n m)
qed

text \<open>
  A request mapper that raises: the call ends with its error and the registry has no
  entry for the training id.
\<close>

theorem no_entry_counterexample:
  "fst (run_training_job
          (failing_mapper_env [] (PyException ValueError ''bad param'')) sample_servicer
          sample_request (sample_module (Inr (saving None))) ''id1'' None sample_ctx True)
     = Inl (PyException ValueError ''bad param'')
   \<and> training_map (fst (snd (run_training_job
          (failing_mapper_env [] (PyException ValueError ''bad param'')) sample_servicer
          sample_request (sample_module (Inr (saving None))) ''id1'' None sample_ctx True)))
        ''id1''
     = None"
  by (simp add: run_training_job_mapper_raises failing_mapper_env_fields sample_servicer_fields)

end
